theory Spec2Isabelle
  imports Complex_Main
begin

section \<open>Numeric model\<close>

text \<open>
  The formula evaluators of the plotting scripts are one-line Python functions over numbers.
  A Python float is modelled as a \<^typ>\<open>real\<close>: the rounding and the overflow of binary
  floating point are not represented, so an equation between floats below is an equation of
  exact arithmetic. Three things that are not rounding are modelled as the code has them:
  an exception raised by an operator is a value \<open>Inl e\<close> of the result; a numpy array
  built from Python integers is a 64-bit integer array, whose products and sums wrap
  around; and a division by zero between numpy floats raises nothing and gives an infinity
  or a NaN.

  The evaluators are duck-typed: the same source line runs on Python scalars and on numpy
  arrays. Each evaluator is first modelled on Python scalars (\<open>int\<close> and \<open>float\<close>
  arguments, as the scenarios of the specification call it). The two evaluators that
  divide are modelled a second time on operands that may be numpy values, as the plotting
  functions call them.
\<close>

datatype py_error = ZeroDivisionError | ValueError

text \<open>The operator \<open>a / b\<close> on Python scalars: a zero divisor raises.\<close>

definition py_truediv :: "real \<Rightarrow> real \<Rightarrow> py_error + real" where
  "py_truediv a b = (if b = 0 then Inl ZeroDivisionError else Inr (a / b))"

text \<open>
  The operator \<open>x ** y\<close> on Python floats. Any base to the power zero is one; zero to a
  negative power raises; a negative base with an exponent that is not a whole number gives
  a complex number, computed from the polar form of the base (whose argument is \<open>pi\<close>).
\<close>

datatype py_num = PyFloat real | PyComplex complex

definition py_pow :: "real \<Rightarrow> real \<Rightarrow> py_error + py_num" where
  "py_pow x y =
     (if y = 0 then Inr (PyFloat 1)
      else if x = 0 then (if y < 0 then Inl ZeroDivisionError else Inr (PyFloat 0))
      else if 0 < x then Inr (PyFloat (x powr y))
      else if y = of_int \<lfloor>y\<rfloor> then Inr (PyFloat (x powi \<lfloor>y\<rfloor>))
      else Inr (PyComplex (rcis ((- x) powr y) (pi * y))))"

text \<open>The product of a float and the result of a power.\<close>

fun py_mul :: "real \<Rightarrow> py_num \<Rightarrow> py_num" where
  "py_mul a (PyFloat b) = PyFloat (a * b)"
| "py_mul a (PyComplex z) = PyComplex (complex_of_real a * z)"

subsection \<open>numpy arrays built from Python lists\<close>

text \<open>
  An element of a Python list of numbers is an \<open>int\<close> (unbounded) or a \<open>float\<close>.
  \<open>value_of\<close> reads either as a real number.
\<close>

datatype py_scalar = IntVal int | FloatVal real

fun value_of :: "py_scalar \<Rightarrow> real" where
  "value_of (IntVal n) = of_int n"
| "value_of (FloatVal x) = x"

text \<open>
  \<open>np.array\<close> chooses the element type of the array from the list. A float is a
  float64. An integer is an int64 when it fits, else a uint64 when it fits, else a Python
  object. The array takes the common type of its elements: an object with anything is an
  object array, a float with any integer is float64, and int64 with uint64 is float64. The
  empty list gives an empty float64 array. (numpy's default integer is taken to be 64 bits
  wide, as it is on Linux and in numpy 2.)
\<close>

datatype np_dtype = Int64 | UInt64 | Float64 | Object

fun scalar_dtype :: "py_scalar \<Rightarrow> np_dtype" where
  "scalar_dtype (FloatVal x) = Float64"
| "scalar_dtype (IntVal n) =
     (if - (2 ^ 63) \<le> n \<and> n < 2 ^ 63 then Int64
      else if 0 \<le> n \<and> n < 2 ^ 64 then UInt64
      else Object)"

fun promote_types :: "np_dtype \<Rightarrow> np_dtype \<Rightarrow> np_dtype" where
  "promote_types Object d = Object"
| "promote_types d Object = Object"
| "promote_types Float64 d = Float64"
| "promote_types d Float64 = Float64"
| "promote_types Int64 Int64 = Int64"
| "promote_types UInt64 UInt64 = UInt64"
| "promote_types Int64 UInt64 = Float64"
| "promote_types UInt64 Int64 = Float64"

fun array_dtype :: "py_scalar list \<Rightarrow> np_dtype" where
  "array_dtype [] = Float64"
| "array_dtype (x # xs) = foldl (\<lambda>d y. promote_types (scalar_dtype y) d) (scalar_dtype x) xs"

text \<open>
  Conversion of an element to an element type: in a float64 array the value is a float;
  the integers of an integer array and the objects of an object array stay as they are.
\<close>

fun astype :: "np_dtype \<Rightarrow> py_scalar \<Rightarrow> py_scalar" where
  "astype Float64 x = FloatVal (value_of x)"
| "astype d x = x"

text \<open>A one-dimensional array: its element type and its elements.\<close>

datatype ndarray = NDArray np_dtype "py_scalar list"

definition np_array :: "py_scalar list \<Rightarrow> ndarray" where
  "np_array xs = NDArray (array_dtype xs) (map (astype (array_dtype xs)) xs)"

text \<open>
  Arithmetic in int64 wraps into \<open>[-2^63, 2^63)\<close> and arithmetic in uint64 wraps into
  \<open>[0, 2^64)\<close>, silently.
\<close>

definition wrap_int64 :: "int \<Rightarrow> int" where
  "wrap_int64 n = (n + 2 ^ 63) mod 2 ^ 64 - 2 ^ 63"

definition wrap_uint64 :: "int \<Rightarrow> int" where
  "wrap_uint64 n = n mod 2 ^ 64"

text \<open>
  The product and the sum of two elements in an array of element type \<open>d\<close>: wrapping in
  the two integer types, Python's own arithmetic in an object array (integers stay
  unbounded integers), a float otherwise.
\<close>

fun mul_as :: "np_dtype \<Rightarrow> py_scalar \<Rightarrow> py_scalar \<Rightarrow> py_scalar" where
  "mul_as Int64 (IntVal a) (IntVal b) = IntVal (wrap_int64 (a * b))"
| "mul_as UInt64 (IntVal a) (IntVal b) = IntVal (wrap_uint64 (a * b))"
| "mul_as Object (IntVal a) (IntVal b) = IntVal (a * b)"
| "mul_as d x y = FloatVal (value_of x * value_of y)"

fun add_as :: "np_dtype \<Rightarrow> py_scalar \<Rightarrow> py_scalar \<Rightarrow> py_scalar" where
  "add_as Int64 (IntVal a) (IntVal b) = IntVal (wrap_int64 (a + b))"
| "add_as UInt64 (IntVal a) (IntVal b) = IntVal (wrap_uint64 (a + b))"
| "add_as Object (IntVal a) (IntVal b) = IntVal (a + b)"
| "add_as d x y = FloatVal (value_of x + value_of y)"

fun zero_as :: "np_dtype \<Rightarrow> py_scalar" where
  "zero_as Float64 = FloatVal 0"
| "zero_as d = IntVal 0"

text \<open>
  numpy's broadcasting of two flat arrays: element by element when the lengths agree; an
  array of length one is stretched along the other; any other pair of lengths raises
  ValueError (operands could not be broadcast together).
\<close>

definition broadcast2 :: "('a \<Rightarrow> 'a \<Rightarrow> 'b) \<Rightarrow> 'a list \<Rightarrow> 'a list \<Rightarrow> py_error + 'b list" where
  "broadcast2 f xs ys =
     (if length xs = length ys then Inr (map2 f xs ys)
      else if length xs = 1 then Inr (map (\<lambda>y. f (hd xs) y) ys)
      else if length ys = 1 then Inr (map (\<lambda>x. f x (hd ys)) xs)
      else Inl ValueError)"

text \<open>
  \<open>a * b\<close> on two arrays: both are converted to their common element type and
  multiplied under broadcasting.
\<close>

fun np_multiply :: "ndarray \<Rightarrow> ndarray \<Rightarrow> py_error + ndarray" where
  "np_multiply (NDArray d1 xs) (NDArray d2 ys) =
     (case broadcast2 (mul_as (promote_types d1 d2)) xs ys of
        Inl e \<Rightarrow> Inl e
      | Inr zs \<Rightarrow> Inr (NDArray (promote_types d1 d2) zs))"

text \<open>
  \<open>np.sum\<close> of a flat array, in the array's element type; the sum of an empty array is
  zero. (numpy adds floats pairwise; the order does not matter to exact or to wrapping
  arithmetic.)
\<close>

fun np_sum :: "ndarray \<Rightarrow> py_scalar" where
  "np_sum (NDArray d xs) = foldl (add_as d) (zero_as d) xs"

subsection \<open>numpy floats and mixed operands\<close>

text \<open>
  A numpy float64 is a finite number, an infinity or a NaN. The operations follow IEEE 754
  on the special values; on finite values they are exact, and zero carries no sign (a
  negative zero divisor would flip the sign of an infinite quotient).
\<close>

datatype f64 = Finite real | PosInf | NegInf | NaN

fun is_finite :: "f64 \<Rightarrow> bool" where
  "is_finite (Finite x) = True"
| "is_finite v = False"

fun f64_div :: "f64 \<Rightarrow> f64 \<Rightarrow> f64" where
  "f64_div NaN y = NaN"
| "f64_div x NaN = NaN"
| "f64_div (Finite a) (Finite b) =
     (if b \<noteq> 0 then Finite (a / b)
      else if a = 0 then NaN
      else if 0 < a then PosInf else NegInf)"
| "f64_div (Finite a) y = Finite 0"
| "f64_div PosInf (Finite b) = (if 0 \<le> b then PosInf else NegInf)"
| "f64_div NegInf (Finite b) = (if 0 \<le> b then NegInf else PosInf)"
| "f64_div x y = NaN"

fun f64_mul :: "f64 \<Rightarrow> f64 \<Rightarrow> f64" where
  "f64_mul NaN y = NaN"
| "f64_mul x NaN = NaN"
| "f64_mul (Finite a) (Finite b) = Finite (a * b)"
| "f64_mul (Finite a) PosInf = (if a = 0 then NaN else if 0 < a then PosInf else NegInf)"
| "f64_mul (Finite a) NegInf = (if a = 0 then NaN else if 0 < a then NegInf else PosInf)"
| "f64_mul PosInf (Finite b) = (if b = 0 then NaN else if 0 < b then PosInf else NegInf)"
| "f64_mul NegInf (Finite b) = (if b = 0 then NaN else if 0 < b then NegInf else PosInf)"
| "f64_mul PosInf PosInf = PosInf"
| "f64_mul NegInf NegInf = PosInf"
| "f64_mul PosInf NegInf = NegInf"
| "f64_mul NegInf PosInf = NegInf"

fun f64_add :: "f64 \<Rightarrow> f64 \<Rightarrow> f64" where
  "f64_add NaN y = NaN"
| "f64_add x NaN = NaN"
| "f64_add (Finite a) (Finite b) = Finite (a + b)"
| "f64_add (Finite a) y = y"
| "f64_add x (Finite b) = x"
| "f64_add PosInf PosInf = PosInf"
| "f64_add NegInf NegInf = NegInf"
| "f64_add PosInf NegInf = NaN"
| "f64_add NegInf PosInf = NaN"

text \<open>
  An operand of an evaluator is a Python scalar or a numpy float (an element of an array,
  the operators working element by element). An operator between two Python scalars is
  Python's; as soon as one operand is a numpy value the operator is numpy's, which raises
  nothing.
\<close>

datatype operand = Scalar real | Element f64

fun as_f64 :: "operand \<Rightarrow> f64" where
  "as_f64 (Scalar a) = Finite a"
| "as_f64 (Element v) = v"

fun op_truediv :: "operand \<Rightarrow> operand \<Rightarrow> py_error + operand" where
  "op_truediv (Scalar a) (Scalar b) =
     (case py_truediv a b of Inl e \<Rightarrow> Inl e | Inr q \<Rightarrow> Inr (Scalar q))"
| "op_truediv x y = Inr (Element (f64_div (as_f64 x) (as_f64 y)))"

fun op_mul :: "operand \<Rightarrow> operand \<Rightarrow> operand" where
  "op_mul (Scalar a) (Scalar b) = Scalar (a * b)"
| "op_mul x y = Element (f64_mul (as_f64 x) (as_f64 y))"

fun op_add :: "operand \<Rightarrow> operand \<Rightarrow> operand" where
  "op_add (Scalar a) (Scalar b) = Scalar (a + b)"
| "op_add x y = Element (f64_add (as_f64 x) (as_f64 y))"

section \<open>The formula evaluators\<close>

text \<open>\<open>plot_growth_respiration.py\<close>: \<open>return m * GTW\<close>.\<close>

definition growth_respiration :: "real \<Rightarrow> real \<Rightarrow> real" where
  "growth_respiration GTW m = m * GTW"

text \<open>
  \<open>plot_maintenance_respiration.py\<close>:
  \<open>return np.sum(np.array(organ_weights) * np.array(organ_coeffs))\<close>.
\<close>

definition maintenance_respiration :: "py_scalar list \<Rightarrow> py_scalar list \<Rightarrow> py_error + py_scalar" where
  "maintenance_respiration organ_weights organ_coeffs =
     (case np_multiply (np_array organ_weights) (np_array organ_coeffs) of
        Inl e \<Rightarrow> Inl e
      | Inr products \<Rightarrow> Inr (np_sum products))"

text \<open>\<open>plot_net_photosynthesis.py\<close>: \<open>return Vc - 0.5 * Vo - Rd\<close>.\<close>

definition net_photosynthesis :: "real \<Rightarrow> real \<Rightarrow> real \<Rightarrow> real" where
  "net_photosynthesis Vc Vo Rd = Vc - 0.5 * Vo - Rd"

text \<open>\<open>plot_nitrogen_respiration.py\<close>: \<open>return r_ref * (Ni / N_ref)\<close>.\<close>

definition nitrogen_respiration_coefficient :: "real \<Rightarrow> real \<Rightarrow> real \<Rightarrow> py_error + real" where
  "nitrogen_respiration_coefficient Ni r_ref N_ref =
     (case py_truediv Ni N_ref of
        Inl e \<Rightarrow> Inl e
      | Inr q \<Rightarrow> Inr (r_ref * q))"

text \<open>
  \<open>plot_rubisco_rp.py\<close>:
  \<^verbatim>\<open>
    numerator = (O2 / Ks)
    denominator = (CO2 / Kc) + (1 + O2 / Ko)
    return Rpmax * numerator / denominator
  \<close>
  The three quotients are evaluated in this order, and the last line divides the product
  \<open>Rpmax * numerator\<close> by the denominator.
\<close>

definition rubisco_rp :: "real \<Rightarrow> real \<Rightarrow> real \<Rightarrow> real \<Rightarrow> real \<Rightarrow> real \<Rightarrow> py_error + real" where
  "rubisco_rp CO2 O2 Rpmax Ks Kc Ko =
     (case py_truediv O2 Ks of
        Inl e \<Rightarrow> Inl e
      | Inr numerator \<Rightarrow>
          (case py_truediv CO2 Kc of
             Inl e \<Rightarrow> Inl e
           | Inr c \<Rightarrow>
               (case py_truediv O2 Ko of
                  Inl e \<Rightarrow> Inl e
                | Inr oxy \<Rightarrow> py_truediv (Rpmax * numerator) (c + (1 + oxy)))))"

text \<open>
  \<open>plot_temperature_respiration.py\<close>: \<open>return Rm0 * Q10**((T - T0) / 10)\<close>.
  The reference temperature \<open>T0\<close> has the default 25 in the source; here it is always
  passed.
\<close>

definition temperature_respiration :: "real \<Rightarrow> real \<Rightarrow> real \<Rightarrow> real \<Rightarrow> py_error + py_num" where
  "temperature_respiration T Rm0 Q10 T0 =
     (case py_pow Q10 ((T - T0) / 10) of
        Inl e \<Rightarrow> Inl e
      | Inr p \<Rightarrow> Inr (py_mul Rm0 p))"

text \<open>
  The same two source lines on operands that may be numpy values.
  \<open>plot_nitrogen_respiration.py\<close> passes an array for \<open>Ni\<close> and Python floats for
  the rest; \<open>make_plot\<close> of \<open>plot_rubisco_rp.py\<close> passes an array for \<open>CO2\<close> and
  Python scalars for the rest; \<open>make_3d_plot\<close> passes arrays for \<open>CO2\<close> and \<open>O2\<close>.
\<close>

definition nitrogen_respiration_coefficient_operands ::
    "operand \<Rightarrow> operand \<Rightarrow> operand \<Rightarrow> py_error + operand" where
  "nitrogen_respiration_coefficient_operands Ni r_ref N_ref =
     (case op_truediv Ni N_ref of
        Inl e \<Rightarrow> Inl e
      | Inr q \<Rightarrow> Inr (op_mul r_ref q))"

definition rubisco_rp_operands ::
    "operand \<Rightarrow> operand \<Rightarrow> operand \<Rightarrow> operand \<Rightarrow> operand \<Rightarrow> operand \<Rightarrow> py_error + operand" where
  "rubisco_rp_operands CO2 O2 Rpmax Ks Kc Ko =
     (case op_truediv O2 Ks of
        Inl e \<Rightarrow> Inl e
      | Inr numerator \<Rightarrow>
          (case op_truediv CO2 Kc of
             Inl e \<Rightarrow> Inl e
           | Inr c \<Rightarrow>
               (case op_truediv O2 Ko of
                  Inl e \<Rightarrow> Inl e
                | Inr oxy \<Rightarrow>
                    op_truediv (op_mul Rpmax numerator) (op_add c (op_add (Scalar 1) oxy)))))"

section \<open>Growth respiration\<close>

text \<open>
  Claim C4. For all \<open>GTW\<close> and \<open>m\<close> (non-negative or not),
  \<open>growth_respiration(GTW, m)\<close> is \<open>m * GTW\<close>; it is zero at \<open>GTW = 0\<close>; it is
  homogeneous in \<open>GTW\<close> for every scalar \<open>k\<close>; and \<open>growth_respiration(10, 0.25)\<close>
  is 2.5.
\<close>

theorem growth_respiration_linear:
  "growth_respiration GTW m = m * GTW
   \<and> growth_respiration 0 m = 0
   \<and> growth_respiration (k * GTW) m = k * growth_respiration GTW m
   \<and> growth_respiration 10 0.25 = 2.5"
  by (simp add: growth_respiration_def)

section \<open>Maintenance respiration\<close>

lemma wrap_int64_id: "- (2 ^ 63) \<le> n \<Longrightarrow> n < 2 ^ 63 \<Longrightarrow> wrap_int64 n = n"
  by (simp add: wrap_int64_def)

lemma wrap_int64_add_left: "wrap_int64 (wrap_int64 a + b) = wrap_int64 (a + b)"
  by (simp add: wrap_int64_def algebra_simps mod_simps)

lemma wrap_int64_add_right: "wrap_int64 (a + wrap_int64 b) = wrap_int64 (a + b)"
  by (simp add: wrap_int64_def algebra_simps mod_simps)

lemma wrap_uint64_add_left: "wrap_uint64 (wrap_uint64 a + b) = wrap_uint64 (a + b)"
  by (simp add: wrap_uint64_def mod_simps)

lemma wrap_uint64_add_right: "wrap_uint64 (a + wrap_uint64 b) = wrap_uint64 (a + b)"
  by (simp add: wrap_uint64_def mod_simps)

lemma promote_types_commute: "promote_types a b = promote_types b a"
  by (cases a; cases b) simp_all

lemma mul_as_commute: "mul_as d x y = mul_as d y x"
  by (cases d; cases x; cases y) (simp_all add: mult.commute)

lemma value_of_astype: "value_of (astype d x) = value_of x"
  by (cases d) simp_all

lemma value_of_mul_as:
  "d = Float64 \<or> d = Object \<Longrightarrow> value_of (mul_as d x y) = value_of x * value_of y"
  by (cases x; cases y) auto

lemma value_of_add_as:
  "d = Float64 \<or> d = Object \<Longrightarrow> value_of (add_as d x y) = value_of x + value_of y"
  by (cases x; cases y) auto

lemma value_of_foldl_add_as:
  "d = Float64 \<or> d = Object \<Longrightarrow>
   value_of (foldl (add_as d) a xs) = value_of a + sum_list (map value_of xs)"
  by (induction xs arbitrary: a) (simp_all add: value_of_add_as)

lemma value_of_zero_as: "value_of (zero_as d) = 0"
  by (cases d) simp_all

lemma value_of_np_sum:
  "d = Float64 \<or> d = Object \<Longrightarrow> value_of (np_sum (NDArray d xs)) = sum_list (map value_of xs)"
  by (simp add: value_of_foldl_add_as value_of_zero_as)


lemma map_value_of_map2_mul_as:
  "d = Float64 \<or> d = Object \<Longrightarrow>
   map (value_of \<circ> (\<lambda>(x, y). mul_as d x y)) (zip xs ys)
     = map2 (*) (map value_of xs) (map value_of ys)"
  by (induction xs ys rule: list_induct2') (simp_all add: value_of_mul_as)

lemma hd_map_length_one: "length xs = 1 \<Longrightarrow> hd (map f xs) = f (hd xs)"
  by (cases xs) simp_all

lemma broadcast2_value_of:
  assumes "d = Float64 \<or> d = Object"
  shows "map_sum id (map value_of) (broadcast2 (mul_as d) xs ys)
           = broadcast2 (*) (map value_of xs) (map value_of ys)"
  using assms
  by (simp add: broadcast2_def map_value_of_map2_mul_as hd_map_length_one value_of_mul_as)

lemma value_of_comp_astype: "value_of \<circ> astype d = value_of"
  by (rule ext) (simp add: value_of_astype)

text \<open>The closed form when the product array is a float or an object array.\<close>

lemma maintenance_respiration_exact:
  assumes "promote_types (array_dtype W) (array_dtype r) = Float64
           \<or> promote_types (array_dtype W) (array_dtype r) = Object"
  shows "map_sum id value_of (maintenance_respiration W r)
           = map_sum id sum_list (broadcast2 (*) (map value_of W) (map value_of r))"
proof -
  let ?d = "promote_types (array_dtype W) (array_dtype r)"
  let ?xs = "map (astype (array_dtype W)) W"
  let ?ys = "map (astype (array_dtype r)) r"
  have b: "map_sum id (map value_of) (broadcast2 (mul_as ?d) ?xs ?ys)
             = broadcast2 (*) (map value_of W) (map value_of r)"
    using broadcast2_value_of [OF assms, of ?xs ?ys] by (simp add: value_of_comp_astype)
  show ?thesis
  proof (cases "broadcast2 (mul_as ?d) ?xs ?ys")
    case (Inl e)
    with b have "broadcast2 (*) (map value_of W) (map value_of r) = Inl e"
      by simp
    with Inl show ?thesis
      by (simp add: maintenance_respiration_def np_array_def)
  next
    case (Inr zs)
    with b have "broadcast2 (*) (map value_of W) (map value_of r) = Inr (map value_of zs)"
      by simp
    with Inr show ?thesis
      using value_of_np_sum [OF assms, of zs]
      by (simp add: maintenance_respiration_def np_array_def)
  qed
qed

lemma promote_types_eq_Int64: "promote_types a b = Int64 \<longleftrightarrow> a = Int64 \<and> b = Int64"
  by (cases a; cases b) simp_all

lemma promote_types_eq_UInt64: "promote_types a b = UInt64 \<longleftrightarrow> a = UInt64 \<and> b = UInt64"
  by (cases a; cases b) simp_all

lemma foldl_promote_eq_Int64:
  "foldl (\<lambda>d y. promote_types (scalar_dtype y) d) d0 xs = Int64
     \<longleftrightarrow> d0 = Int64 \<and> (\<forall>x\<in>set xs. scalar_dtype x = Int64)"
  by (induction xs arbitrary: d0) (auto simp add: promote_types_eq_Int64)

lemma foldl_promote_eq_UInt64:
  "foldl (\<lambda>d y. promote_types (scalar_dtype y) d) d0 xs = UInt64
     \<longleftrightarrow> d0 = UInt64 \<and> (\<forall>x\<in>set xs. scalar_dtype x = UInt64)"
  by (induction xs arbitrary: d0) (auto simp add: promote_types_eq_UInt64)

text \<open>An array is an int64 (uint64) array exactly when the list is not empty and every
  element is an integer of that range.\<close>

lemma array_dtype_eq_Int64:
  "array_dtype xs = Int64 \<longleftrightarrow> xs \<noteq> [] \<and> (\<forall>x\<in>set xs. scalar_dtype x = Int64)"
  by (cases xs) (auto simp add: foldl_promote_eq_Int64)

lemma array_dtype_eq_UInt64:
  "array_dtype xs = UInt64 \<longleftrightarrow> xs \<noteq> [] \<and> (\<forall>x\<in>set xs. scalar_dtype x = UInt64)"
  by (cases xs) (auto simp add: foldl_promote_eq_UInt64)

lemma promote_types_cases:
  "promote_types a b = Int64 \<or> promote_types a b = UInt64
   \<or> promote_types a b = Float64 \<or> promote_types a b = Object"
  by (cases "promote_types a b") simp_all

lemma wrap_int64_zero: "wrap_int64 0 = 0"
  by (simp add: wrap_int64_def)

lemma wrap_uint64_zero: "wrap_uint64 0 = 0"
  by (simp add: wrap_uint64_def)

text \<open>Integer arrays: one argument for int64 and uint64, over the wrap function \<open>w\<close>.\<close>

lemma map2_mul_as_IntVal:
  assumes "\<And>a b. mul_as d (IntVal a) (IntVal b) = IntVal (w (a * b))"
  shows "map2 (mul_as d) (map IntVal ws) (map IntVal rs) = map IntVal (map w (map2 (*) ws rs))"
  by (induction ws rs rule: list_induct2') (simp_all add: assms)

lemma broadcast2_mul_as_IntVal:
  assumes "\<And>a b. mul_as d (IntVal a) (IntVal b) = IntVal (w (a * b))"
  shows "broadcast2 (mul_as d) (map IntVal ws) (map IntVal rs)
           = map_sum id (\<lambda>ps. map IntVal (map w ps)) (broadcast2 (*) ws rs)"
  using map2_mul_as_IntVal [of d w ws rs, OF assms]
  by (simp add: broadcast2_def hd_map_length_one assms comp_def)

lemma foldl_add_as_IntVal:
  assumes "\<And>a b. add_as d (IntVal a) (IntVal b) = IntVal (w (a + b))"
    and "\<And>a b. w (w a + b) = w (a + b)"
  shows "foldl (add_as d) (IntVal (w a)) (map IntVal ks) = IntVal (w (a + sum_list ks))"
  by (induction ks arbitrary: a) (simp_all add: assms add.assoc)

lemma wrap_sum_list_map_wrap:
  fixes w :: "int \<Rightarrow> int"
  assumes "\<And>a b. w (a + w b) = w (a + b)"
  shows "w (a + sum_list (map w ps)) = w (a + sum_list ps)"
proof (induction ps arbitrary: a)
  case Nil
  show ?case by simp
next
  case (Cons p ps)
  have "w (a + (w p + sum_list (map w ps))) = w ((a + w p) + sum_list (map w ps))"
    by (simp add: add.assoc)
  also have "\<dots> = w ((a + w p) + sum_list ps)"
    by (rule Cons.IH)
  also have "\<dots> = w ((sum_list ps + a) + w p)"
    by (simp add: add.commute add.left_commute)
  also have "\<dots> = w ((sum_list ps + a) + p)"
    by (rule assms)
  finally show ?case
    by (simp add: add.commute add.left_commute)
qed

lemma maintenance_respiration_integer:
  assumes dW: "array_dtype (map IntVal ws) = d" and dr: "array_dtype (map IntVal rs) = d"
    and pd: "promote_types d d = d"
    and cast: "\<And>x. astype d x = x"
    and zero: "zero_as d = IntVal (w 0)"
    and mul: "\<And>a b. mul_as d (IntVal a) (IntVal b) = IntVal (w (a * b))"
    and add: "\<And>a b. add_as d (IntVal a) (IntVal b) = IntVal (w (a + b))"
    and wl: "\<And>a b. w (w a + b) = w (a + b)"
    and wr: "\<And>a b. w (a + w b) = w (a + b)"
  shows "maintenance_respiration (map IntVal ws) (map IntVal rs)
           = map_sum id (\<lambda>ps. IntVal (w (sum_list ps))) (broadcast2 (*) ws rs)"
proof -
  have arr: "np_array (map IntVal ws) = NDArray d (map IntVal ws)"
    "np_array (map IntVal rs) = NDArray d (map IntVal rs)"
    by (simp_all add: np_array_def dW dr cast)
  have s: "np_sum (NDArray d (map IntVal (map w ps))) = IntVal (w (sum_list ps))" for ps
    using foldl_add_as_IntVal [of d w 0 "map w ps", OF add wl]
      wrap_sum_list_map_wrap [of w 0 ps, OF wr]
    by (simp add: zero)
  show ?thesis
  proof (cases "broadcast2 (*) ws rs")
    case (Inl e)
    then show ?thesis
      by (simp add: maintenance_respiration_def arr pd broadcast2_mul_as_IntVal [OF mul])
  next
    case (Inr ps)
    then have "np_multiply (NDArray d (map IntVal ws)) (NDArray d (map IntVal rs))
                 = Inr (NDArray d (map IntVal (map w ps)))"
      by (simp add: pd broadcast2_mul_as_IntVal [OF mul] del: map_map)
    with Inr show ?thesis
      by (simp add: maintenance_respiration_def arr s del: map_map np_sum.simps)
  qed
qed

lemma array_dtype_map_IntVal_Int64:
  "ws \<noteq> [] \<Longrightarrow> \<forall>n\<in>set ws. - (2 ^ 63) \<le> n \<and> n < 2 ^ 63 \<Longrightarrow>
   array_dtype (map IntVal ws) = Int64"
  by (auto simp add: array_dtype_eq_Int64)

lemma array_dtype_map_IntVal_UInt64:
  "ws \<noteq> [] \<Longrightarrow> \<forall>n\<in>set ws. 2 ^ 63 \<le> n \<and> n < 2 ^ 64 \<Longrightarrow>
   array_dtype (map IntVal ws) = UInt64"
  by (auto simp add: array_dtype_eq_UInt64)

lemma maintenance_respiration_int64:
  assumes "ws \<noteq> []" "rs \<noteq> []" "\<forall>n\<in>set ws \<union> set rs. - (2 ^ 63) \<le> n \<and> n < 2 ^ 63"
  shows "maintenance_respiration (map IntVal ws) (map IntVal rs)
           = map_sum id (\<lambda>ps. IntVal (wrap_int64 (sum_list ps))) (broadcast2 (*) ws rs)"
proof (rule maintenance_respiration_integer [where d = Int64])
  show "array_dtype (map IntVal ws) = Int64"
    using assms by (simp add: array_dtype_map_IntVal_Int64)
  show "array_dtype (map IntVal rs) = Int64"
    using assms by (simp add: array_dtype_map_IntVal_Int64)
qed (simp_all add: wrap_int64_zero wrap_int64_add_left wrap_int64_add_right)

lemma maintenance_respiration_uint64:
  assumes "ws \<noteq> []" "rs \<noteq> []" "\<forall>n\<in>set ws \<union> set rs. 2 ^ 63 \<le> n \<and> n < 2 ^ 64"
  shows "maintenance_respiration (map IntVal ws) (map IntVal rs)
           = map_sum id (\<lambda>ps. IntVal (wrap_uint64 (sum_list ps))) (broadcast2 (*) ws rs)"
proof (rule maintenance_respiration_integer [where d = UInt64])
  show "array_dtype (map IntVal ws) = UInt64"
    using assms by (simp add: array_dtype_map_IntVal_UInt64)
  show "array_dtype (map IntVal rs) = UInt64"
    using assms by (simp add: array_dtype_map_IntVal_UInt64)
qed (simp_all add: wrap_uint64_zero wrap_uint64_add_left wrap_uint64_add_right)

lemma broadcast2_same_length:
  "length xs = length ys \<Longrightarrow> broadcast2 f xs ys = Inr (map2 f xs ys)"
  by (simp add: broadcast2_def)

lemma sum_list_map2_nth:
  fixes xs ys :: "'a::comm_semiring_0 list"
  shows "length xs = length ys \<Longrightarrow>
   sum_list (map2 (*) xs ys) = (\<Sum>i<length xs. xs ! i * ys ! i)"
  by (simp add: sum_list_sum_nth atLeast0LessThan)

lemma map2_commute:
  assumes "\<And>x y. f x y = f y x"
  shows "map2 f xs ys = map2 f ys xs"
  by (induction xs ys rule: list_induct2') (simp_all add: assms)

lemma broadcast2_commute:
  assumes "\<And>x y. f x y = f y x"
  shows "broadcast2 f xs ys = broadcast2 f ys xs"
  using map2_commute [of f xs ys, OF assms]
  by (auto simp add: broadcast2_def assms)

lemma maintenance_respiration_commute:
  "maintenance_respiration W r = maintenance_respiration r W"
proof -
  let ?d = "promote_types (array_dtype W) (array_dtype r)"
  have pc: "promote_types (array_dtype r) (array_dtype W) = ?d"
    by (rule promote_types_commute)
  have bc: "broadcast2 (mul_as ?d) (map (astype (array_dtype r)) r) (map (astype (array_dtype W)) W)
          = broadcast2 (mul_as ?d) (map (astype (array_dtype W)) W) (map (astype (array_dtype r)) r)"
    by (rule broadcast2_commute) (rule mul_as_commute)
  have "np_multiply (np_array r) (np_array W) = np_multiply (np_array W) (np_array r)"
    by (simp only: np_array_def np_multiply.simps pc bc)
  then show ?thesis
    by (simp only: maintenance_respiration_def)
qed

lemma maintenance_respiration_same_length:
  "length W = length r \<Longrightarrow> \<exists>v. maintenance_respiration W r = Inr v"
  by (simp add: maintenance_respiration_def np_array_def broadcast2_def)

lemma maintenance_respiration_mismatch:
  "length W \<noteq> length r \<Longrightarrow> length W \<noteq> 1 \<Longrightarrow> length r \<noteq> 1 \<Longrightarrow>
   maintenance_respiration W r = Inl ValueError"
  by (simp add: maintenance_respiration_def np_array_def broadcast2_def)

lemma maintenance_respiration_broadcast:
  "length W = 1 \<or> length r = 1 \<Longrightarrow> \<exists>v. maintenance_respiration W r = Inr v"
  by (auto simp add: maintenance_respiration_def np_array_def broadcast2_def)

lemma promote_array_dtype_exact:
  assumes "\<not> (W \<noteq> [] \<and> r \<noteq> [] \<and> (\<forall>x\<in>set W \<union> set r. scalar_dtype x = Int64))"
    and "\<not> (W \<noteq> [] \<and> r \<noteq> [] \<and> (\<forall>x\<in>set W \<union> set r. scalar_dtype x = UInt64))"
  shows "promote_types (array_dtype W) (array_dtype r) = Float64
         \<or> promote_types (array_dtype W) (array_dtype r) = Object"
proof -
  have "promote_types (array_dtype W) (array_dtype r) \<noteq> Int64"
    using assms(1) by (auto simp add: promote_types_eq_Int64 array_dtype_eq_Int64)
  moreover have "promote_types (array_dtype W) (array_dtype r) \<noteq> UInt64"
    using assms(2) by (auto simp add: promote_types_eq_UInt64 array_dtype_eq_UInt64)
  ultimately show ?thesis
    using promote_types_cases [of "array_dtype W" "array_dtype r"] by blast
qed

lemma sum_list_broadcast2:
  fixes xs ys :: "'a::comm_semiring_0 list"
  shows "map_sum id sum_list (broadcast2 (*) xs ys) =
     (if length xs = length ys then Inr (\<Sum>i<length xs. xs ! i * ys ! i)
      else if length xs = 1 then Inr (hd xs * sum_list ys)
      else if length ys = 1 then Inr (sum_list xs * hd ys)
      else Inl ValueError)"
  by (simp add: broadcast2_def sum_list_map2_nth sum_list_const_mult sum_list_mult_const)

text \<open>
  Claim C3, as stated: for every pair of sequences of equal length the result is the dot
  product. It does not hold for two sequences of integers: their arrays are int64 arrays
  and the products and the sum wrap around. For the weights \<open>[2^62, 2^62]\<close> and the
  coefficients \<open>[4, 4]\<close> the dot product is \<open>2^65\<close> and the function returns 0.
\<close>

theorem maintenance_respiration_int64_wrap_counterexample:
  "length [IntVal (2 ^ 62), IntVal (2 ^ 62)] = length [IntVal 4, IntVal 4]
   \<and> maintenance_respiration [IntVal (2 ^ 62), IntVal (2 ^ 62)] [IntVal 4, IntVal 4]
       = Inr (IntVal 0)
   \<and> (2 ^ 62 * 4 + 2 ^ 62 * 4 :: int) = 2 ^ 65"
  by (simp add: maintenance_respiration_def np_array_def broadcast2_def wrap_int64_def)

text \<open>
  Claim C3, amended. For weight and coefficient sequences of equal length,
  \<open>maintenance_respiration\<close> returns their dot product, the sum over the positions
  \<open>i\<close> of \<open>W_i * r_i\<close>, unless both sequences hold only integers of the int64 range
  or only integers of the uint64 range above it. Two sequences of int64 integers give the
  dot product wrapped into \<open>[-2^63, 2^63)\<close>, which is the dot product itself when that
  lies in the range; two sequences of integers in \<open>[2^63, 2^64)\<close> give the dot product
  modulo \<open>2^64\<close>. On two empty sequences the result is 0, and on the weights
  \<open>[100, 100, 100]\<close> with the coefficients \<open>[0.015, 0.010, 0.012]\<close> it is 3.7.
\<close>

theorem maintenance_respiration_dot_product:
  "(length W = length r
      \<and> \<not> (W \<noteq> [] \<and> (\<forall>x\<in>set W \<union> set r. scalar_dtype x = Int64))
      \<and> \<not> (W \<noteq> [] \<and> (\<forall>x\<in>set W \<union> set r. scalar_dtype x = UInt64))
      \<longrightarrow> (\<exists>v. maintenance_respiration W r = Inr v
                \<and> value_of v = (\<Sum>i<length W. value_of (W ! i) * value_of (r ! i))))
   \<and> (length ws = length rs \<and> ws \<noteq> []
        \<and> (\<forall>n\<in>set ws \<union> set rs. - (2 ^ 63) \<le> n \<and> n < 2 ^ 63)
      \<longrightarrow> maintenance_respiration (map IntVal ws) (map IntVal rs)
            = Inr (IntVal (wrap_int64 (\<Sum>i<length ws. ws ! i * rs ! i)))
          \<and> (- (2 ^ 63) \<le> (\<Sum>i<length ws. ws ! i * rs ! i)
               \<and> (\<Sum>i<length ws. ws ! i * rs ! i) < 2 ^ 63
             \<longrightarrow> maintenance_respiration (map IntVal ws) (map IntVal rs)
                   = Inr (IntVal (\<Sum>i<length ws. ws ! i * rs ! i))))
   \<and> (length us = length vs \<and> us \<noteq> []
        \<and> (\<forall>n\<in>set us \<union> set vs. 2 ^ 63 \<le> n \<and> n < 2 ^ 64)
      \<longrightarrow> maintenance_respiration (map IntVal us) (map IntVal vs)
            = Inr (IntVal (wrap_uint64 (\<Sum>i<length us. us ! i * vs ! i))))
   \<and> maintenance_respiration [] [] = Inr (FloatVal 0)
   \<and> maintenance_respiration [IntVal 100, IntVal 100, IntVal 100]
        [FloatVal 0.015, FloatVal 0.010, FloatVal 0.012] = Inr (FloatVal 3.7)"
proof (intro conjI impI)
  assume h: "length W = length r
      \<and> \<not> (W \<noteq> [] \<and> (\<forall>x\<in>set W \<union> set r. scalar_dtype x = Int64))
      \<and> \<not> (W \<noteq> [] \<and> (\<forall>x\<in>set W \<union> set r. scalar_dtype x = UInt64))"
  then have len: "length W = length r" by simp
  from h have ex: "promote_types (array_dtype W) (array_dtype r) = Float64
         \<or> promote_types (array_dtype W) (array_dtype r) = Object"
    by (intro promote_array_dtype_exact) auto
  obtain v where v: "maintenance_respiration W r = Inr v"
    using maintenance_respiration_same_length [OF len] by blast
  have "map_sum id value_of (maintenance_respiration W r)
          = Inr (\<Sum>i<length W. value_of (W ! i) * value_of (r ! i))"
    using maintenance_respiration_exact [OF ex] sum_list_broadcast2 [of "map value_of W" "map value_of r"] len
    by simp
  with v show "\<exists>v. maintenance_respiration W r = Inr v
                \<and> value_of v = (\<Sum>i<length W. value_of (W ! i) * value_of (r ! i))"
    by simp
next
  assume h: "length ws = length rs \<and> ws \<noteq> []
        \<and> (\<forall>n\<in>set ws \<union> set rs. - (2 ^ 63) \<le> n \<and> n < 2 ^ 63)"
  then have "rs \<noteq> []" by auto
  with h have "maintenance_respiration (map IntVal ws) (map IntVal rs)
           = map_sum id (\<lambda>ps. IntVal (wrap_int64 (sum_list ps))) (broadcast2 (*) ws rs)"
    by (intro maintenance_respiration_int64) auto
  with h show w: "maintenance_respiration (map IntVal ws) (map IntVal rs)
            = Inr (IntVal (wrap_int64 (\<Sum>i<length ws. ws ! i * rs ! i)))"
    by (simp add: broadcast2_same_length sum_list_map2_nth)
  assume "- (2 ^ 63) \<le> (\<Sum>i<length ws. ws ! i * rs ! i)
               \<and> (\<Sum>i<length ws. ws ! i * rs ! i) < 2 ^ 63"
  then show "maintenance_respiration (map IntVal ws) (map IntVal rs)
                   = Inr (IntVal (\<Sum>i<length ws. ws ! i * rs ! i))"
    using w by (simp add: wrap_int64_id)
next
  assume h: "length us = length vs \<and> us \<noteq> []
        \<and> (\<forall>n\<in>set us \<union> set vs. 2 ^ 63 \<le> n \<and> n < 2 ^ 64)"
  then have "vs \<noteq> []" by auto
  with h have "maintenance_respiration (map IntVal us) (map IntVal vs)
           = map_sum id (\<lambda>ps. IntVal (wrap_uint64 (sum_list ps))) (broadcast2 (*) us vs)"
    by (intro maintenance_respiration_uint64) auto
  with h show "maintenance_respiration (map IntVal us) (map IntVal vs)
            = Inr (IntVal (wrap_uint64 (\<Sum>i<length us. us ! i * vs ! i)))"
    by (simp add: broadcast2_same_length sum_list_map2_nth)
next
  show "maintenance_respiration [] [] = Inr (FloatVal 0)"
    by (simp add: maintenance_respiration_def np_array_def broadcast2_def)
next
  show "maintenance_respiration [IntVal 100, IntVal 100, IntVal 100]
        [FloatVal 0.015, FloatVal 0.010, FloatVal 0.012] = Inr (FloatVal 3.7)"
    by (simp add: maintenance_respiration_def np_array_def broadcast2_def)
qed

theorem maintenance_respiration_dot_product_witness:
  "maintenance_respiration [FloatVal 2, FloatVal 3] [FloatVal 5, IntVal 7] = Inr (FloatVal 31)
   \<and> maintenance_respiration [IntVal 2, IntVal 3] [IntVal 5, IntVal 7] = Inr (IntVal 31)
   \<and> maintenance_respiration [IntVal (2 ^ 62), IntVal (2 ^ 62)] [IntVal 1, IntVal 1]
       = Inr (IntVal (- (2 ^ 63)))
   \<and> maintenance_respiration [IntVal (2 ^ 63)] [IntVal (2 ^ 63 + 1)] = Inr (IntVal (2 ^ 63))"
proof -
  have "\<exists>v. maintenance_respiration [FloatVal 2, FloatVal 3] [FloatVal 5, IntVal 7] = Inr v
          \<and> value_of v = 31"
    using maintenance_respiration_dot_product
      [of "[FloatVal 2, FloatVal 3]" "[FloatVal 5, IntVal 7]" "[]" "[]" "[]" "[]"]
    by (simp add: lessThan_Suc numeral_2_eq_2)
  moreover have "maintenance_respiration [FloatVal 2, FloatVal 3] [FloatVal 5, IntVal 7]
                   = Inr (FloatVal 31)"
    by (simp add: maintenance_respiration_def np_array_def broadcast2_def)
  moreover have "maintenance_respiration [IntVal 2, IntVal 3] [IntVal 5, IntVal 7] = Inr (IntVal 31)"
    using maintenance_respiration_dot_product [of "[]" "[]" "[2, 3]" "[5, 7]" "[]" "[]"]
    by (simp add: lessThan_Suc numeral_2_eq_2 wrap_int64_def)
  moreover have "maintenance_respiration [IntVal (2 ^ 62), IntVal (2 ^ 62)] [IntVal 1, IntVal 1]
       = Inr (IntVal (- (2 ^ 63)))"
    using maintenance_respiration_dot_product [of "[]" "[]" "[2 ^ 62, 2 ^ 62]" "[1, 1]" "[]" "[]"]
    by (simp add: lessThan_Suc numeral_2_eq_2 wrap_int64_def)
  moreover have "maintenance_respiration [IntVal (2 ^ 63)] [IntVal (2 ^ 63 + 1)] = Inr (IntVal (2 ^ 63))"
    using maintenance_respiration_dot_product [of "[]" "[]" "[]" "[]" "[2 ^ 63]" "[2 ^ 63 + 1]"]
    by (simp add: wrap_uint64_def)
  ultimately show ?thesis by blast
qed

text \<open>
  Claim C2, as stated: whenever the two lengths differ, the call fails with a shape
  mismatch and returns no number. It does not hold: a sequence of length one is broadcast
  along the other one, so one weight against three coefficients returns a number.
\<close>

theorem maintenance_respiration_broadcast_counterexample:
  "length [IntVal 2] = 1 \<and> length [IntVal 1, IntVal 2, IntVal 3] = 3
   \<and> maintenance_respiration [IntVal 2] [IntVal 1, IntVal 2, IntVal 3] = Inr (IntVal 12)"
  by (simp add: maintenance_respiration_def np_array_def broadcast2_def wrap_int64_def)

text \<open>
  Claim C2, amended. For sequences of unequal length: when neither has length one, the
  call fails with the shape-mismatch error (ValueError) and returns no number; when the
  weights have length one the single weight multiplies the sum of the coefficients, and
  when the coefficients have length one the single coefficient multiplies the sum of the
  weights. That product is exact unless both sequences hold only int64 integers, or only
  integers in \<open>[2^63, 2^64)\<close>, where it is wrapped as 64-bit integer arithmetic wraps.
\<close>

theorem maintenance_respiration_unequal_lengths:
  "(length W \<noteq> length r \<and> length W \<noteq> 1 \<and> length r \<noteq> 1
      \<longrightarrow> maintenance_respiration W r = Inl ValueError)
   \<and> (length W \<noteq> length r
        \<and> \<not> (W \<noteq> [] \<and> r \<noteq> [] \<and> (\<forall>x\<in>set W \<union> set r. scalar_dtype x = Int64))
        \<and> \<not> (W \<noteq> [] \<and> r \<noteq> [] \<and> (\<forall>x\<in>set W \<union> set r. scalar_dtype x = UInt64))
      \<longrightarrow> map_sum id value_of (maintenance_respiration W r) =
           (if length W = 1 then Inr (value_of (hd W) * sum_list (map value_of r))
            else if length r = 1 then Inr (sum_list (map value_of W) * value_of (hd r))
            else Inl ValueError))
   \<and> (length ws \<noteq> length rs \<and> ws \<noteq> [] \<and> rs \<noteq> []
        \<and> (\<forall>n\<in>set ws \<union> set rs. - (2 ^ 63) \<le> n \<and> n < 2 ^ 63)
      \<longrightarrow> maintenance_respiration (map IntVal ws) (map IntVal rs) =
           (if length ws = 1 then Inr (IntVal (wrap_int64 (hd ws * sum_list rs)))
            else if length rs = 1 then Inr (IntVal (wrap_int64 (sum_list ws * hd rs)))
            else Inl ValueError))
   \<and> (length us \<noteq> length vs \<and> us \<noteq> [] \<and> vs \<noteq> []
        \<and> (\<forall>n\<in>set us \<union> set vs. 2 ^ 63 \<le> n \<and> n < 2 ^ 64)
      \<longrightarrow> maintenance_respiration (map IntVal us) (map IntVal vs) =
           (if length us = 1 then Inr (IntVal (wrap_uint64 (hd us * sum_list vs)))
            else if length vs = 1 then Inr (IntVal (wrap_uint64 (sum_list us * hd vs)))
            else Inl ValueError))"
proof (intro conjI impI)
  assume "length W \<noteq> length r \<and> length W \<noteq> 1 \<and> length r \<noteq> 1"
  then show "maintenance_respiration W r = Inl ValueError"
    by (simp add: maintenance_respiration_mismatch)
next
  assume h: "length W \<noteq> length r
        \<and> \<not> (W \<noteq> [] \<and> r \<noteq> [] \<and> (\<forall>x\<in>set W \<union> set r. scalar_dtype x = Int64))
        \<and> \<not> (W \<noteq> [] \<and> r \<noteq> [] \<and> (\<forall>x\<in>set W \<union> set r. scalar_dtype x = UInt64))"
  then have ex: "promote_types (array_dtype W) (array_dtype r) = Float64
         \<or> promote_types (array_dtype W) (array_dtype r) = Object"
    by (intro promote_array_dtype_exact) auto
  show "map_sum id value_of (maintenance_respiration W r) =
           (if length W = 1 then Inr (value_of (hd W) * sum_list (map value_of r))
            else if length r = 1 then Inr (sum_list (map value_of W) * value_of (hd r))
            else Inl ValueError)"
    using maintenance_respiration_exact [OF ex]
      sum_list_broadcast2 [of "map value_of W" "map value_of r"] h
    by (simp add: hd_map_length_one)
next
  assume h: "length ws \<noteq> length rs \<and> ws \<noteq> [] \<and> rs \<noteq> []
        \<and> (\<forall>n\<in>set ws \<union> set rs. - (2 ^ 63) \<le> n \<and> n < 2 ^ 63)"
  then have "maintenance_respiration (map IntVal ws) (map IntVal rs)
           = map_sum id (\<lambda>ps. IntVal (wrap_int64 (sum_list ps))) (broadcast2 (*) ws rs)"
    by (intro maintenance_respiration_int64) auto
  with h show "maintenance_respiration (map IntVal ws) (map IntVal rs) =
           (if length ws = 1 then Inr (IntVal (wrap_int64 (hd ws * sum_list rs)))
            else if length rs = 1 then Inr (IntVal (wrap_int64 (sum_list ws * hd rs)))
            else Inl ValueError)"
    by (simp add: broadcast2_def sum_list_const_mult sum_list_mult_const)
next
  assume h: "length us \<noteq> length vs \<and> us \<noteq> [] \<and> vs \<noteq> []
        \<and> (\<forall>n\<in>set us \<union> set vs. 2 ^ 63 \<le> n \<and> n < 2 ^ 64)"
  then have "maintenance_respiration (map IntVal us) (map IntVal vs)
           = map_sum id (\<lambda>ps. IntVal (wrap_uint64 (sum_list ps))) (broadcast2 (*) us vs)"
    by (intro maintenance_respiration_uint64) auto
  with h show "maintenance_respiration (map IntVal us) (map IntVal vs) =
           (if length us = 1 then Inr (IntVal (wrap_uint64 (hd us * sum_list vs)))
            else if length vs = 1 then Inr (IntVal (wrap_uint64 (sum_list us * hd vs)))
            else Inl ValueError)"
    by (simp add: broadcast2_def sum_list_const_mult sum_list_mult_const)
qed

theorem maintenance_respiration_unequal_lengths_witness:
  "maintenance_respiration [FloatVal 1, FloatVal 2] [FloatVal 1, FloatVal 2, FloatVal 3]
     = Inl ValueError
   \<and> map_sum id value_of (maintenance_respiration [FloatVal 2] [FloatVal 1, FloatVal 2, FloatVal 3])
       = Inr 12
   \<and> maintenance_respiration [IntVal 2] [IntVal 1, IntVal 2, IntVal 3] = Inr (IntVal 12)
   \<and> maintenance_respiration [IntVal (2 ^ 63), IntVal (2 ^ 63)] [IntVal (2 ^ 63 + 1)]
       = Inr (IntVal 0)"
  using maintenance_respiration_unequal_lengths
      [of "[FloatVal 1, FloatVal 2]" "[FloatVal 1, FloatVal 2, FloatVal 3]" "[]" "[]" "[]" "[]"]
    maintenance_respiration_unequal_lengths
      [of "[FloatVal 2]" "[FloatVal 1, FloatVal 2, FloatVal 3]" "[2]" "[1, 2, 3]"
          "[2 ^ 63, 2 ^ 63]" "[2 ^ 63 + 1]"]
  by (simp add: wrap_int64_def wrap_uint64_def)

text \<open>
  Claim C9. For sequences of equal length the two arguments are interchangeable:
  passing the coefficients as weights and the weights as coefficients returns the same
  number, not an error.
\<close>

theorem maintenance_respiration_swap:
  "length W = length r \<Longrightarrow>
     maintenance_respiration W r = maintenance_respiration r W
     \<and> (\<exists>v. maintenance_respiration r W = Inr v)"
  using maintenance_respiration_commute [of W r] maintenance_respiration_same_length [of r W]
  by simp

theorem maintenance_respiration_swap_witness:
  "length [IntVal 100, IntVal 200] = length [FloatVal 0.015, FloatVal 0.010]
   \<and> maintenance_respiration [IntVal 100, IntVal 200] [FloatVal 0.015, FloatVal 0.010]
       = maintenance_respiration [FloatVal 0.015, FloatVal 0.010] [IntVal 100, IntVal 200]
   \<and> maintenance_respiration [FloatVal 0.015, FloatVal 0.010] [IntVal 100, IntVal 200]
       = Inr (FloatVal 3.5)"
proof -
  have "maintenance_respiration [FloatVal 0.015, FloatVal 0.010] [IntVal 100, IntVal 200]
          = Inr (FloatVal 3.5)"
    by (simp add: maintenance_respiration_def np_array_def broadcast2_def)
  then show ?thesis
    using maintenance_respiration_swap
      [of "[IntVal 100, IntVal 200]" "[FloatVal 0.015, FloatVal 0.010]"]
    by simp
qed

section \<open>Net photosynthesis\<close>

text \<open>
  Claim C6. \<open>net_photosynthesis(Vc, Vo, Rd)\<close> is the linear combination
  \<open>Vc - 0.5 * Vo - Rd\<close>; with no oxygenation and no dark respiration it is \<open>Vc\<close>;
  it is negative whenever \<open>0.5 * Vo + Rd > Vc\<close> (the function is total, it neither
  clamps nor raises); and \<open>net_photosynthesis(80, 40, 2)\<close> is 58.
\<close>

theorem net_photosynthesis_linear:
  "net_photosynthesis Vc Vo Rd = Vc - 0.5 * Vo - Rd
   \<and> net_photosynthesis Vc 0 0 = Vc
   \<and> (0.5 * Vo + Rd > Vc \<longrightarrow> net_photosynthesis Vc Vo Rd < 0)
   \<and> net_photosynthesis 80 40 2 = 58"
  by (simp add: net_photosynthesis_def)

theorem net_photosynthesis_linear_witness:
  "0.5 * 40 + 2 > (10::real) \<and> net_photosynthesis 10 40 2 < 0
   \<and> net_photosynthesis 10 40 2 = - 12"
  using net_photosynthesis_linear [of 10 40 2] by simp

section \<open>Nitrogen-scaled maintenance coefficient\<close>

text \<open>
  Claim C7. For a reference nitrogen content \<open>N_ref\<close> other than zero,
  \<open>nitrogen_respiration_coefficient(Ni, r_ref, N_ref)\<close> is \<open>r_ref * (Ni / N_ref)\<close>;
  at \<open>Ni = N_ref\<close> it is \<open>r_ref\<close>; and for \<open>r_ref\<close> other than zero the result
  divided by \<open>r_ref\<close> is \<open>Ni / N_ref\<close>.
\<close>

theorem nitrogen_respiration_coefficient_scaling:
  assumes "N_ref \<noteq> 0"
  shows "nitrogen_respiration_coefficient Ni r_ref N_ref = Inr (r_ref * (Ni / N_ref))
     \<and> nitrogen_respiration_coefficient N_ref r_ref N_ref = Inr r_ref
     \<and> (r_ref \<noteq> 0 \<longrightarrow>
          (\<exists>v. nitrogen_respiration_coefficient Ni r_ref N_ref = Inr v
                \<and> v / r_ref = Ni / N_ref))"
  using assms by (simp add: nitrogen_respiration_coefficient_def py_truediv_def)

theorem nitrogen_respiration_coefficient_scaling_witness:
  "(3::real) \<noteq> 0 \<and> (0.015::real) \<noteq> 0
   \<and> nitrogen_respiration_coefficient 6 0.015 3 = Inr (0.015 * (6 / 3))
   \<and> nitrogen_respiration_coefficient 3 0.015 3 = Inr 0.015
   \<and> (\<exists>v. nitrogen_respiration_coefficient 6 0.015 3 = Inr v \<and> v / 0.015 = 6 / 3)
   \<and> nitrogen_respiration_coefficient 6 0.015 3 = Inr 0.03"
proof -
  have h: "(3::real) \<noteq> 0" and k: "(0.015::real) \<noteq> 0"
    by simp_all
  have "nitrogen_respiration_coefficient 6 0.015 3 = Inr 0.03"
    by (simp add: nitrogen_respiration_coefficient_def py_truediv_def)
  then show ?thesis
    using nitrogen_respiration_coefficient_scaling [OF h, of 6 "0.015"] h k by blast
qed

section \<open>Rubisco-kinetics respiration\<close>

lemma rubisco_denominator_pos:
  fixes CO2 O2 Kc Ko :: real
  assumes "0 \<le> CO2" "0 \<le> O2" "0 < Kc" "0 < Ko"
  shows "0 < CO2 / Kc + (1 + O2 / Ko)"
proof -
  have "0 \<le> CO2 / Kc" using assms(1,3) by (rule divide_nonneg_pos)
  moreover have "0 \<le> O2 / Ko" using assms(2,4) by (rule divide_nonneg_pos)
  ultimately show ?thesis by linarith
qed

text \<open>On non-negative concentrations and positive constants no division raises.\<close>

lemma rubisco_rp_value:
  assumes "0 \<le> CO2" "0 \<le> O2" "0 < Ks" "0 < Kc" "0 < Ko"
  shows "rubisco_rp CO2 O2 Rpmax Ks Kc Ko
           = Inr (Rpmax * (O2 / Ks) / (CO2 / Kc + 1 + O2 / Ko))"
proof -
  have "CO2 / Kc + (1 + O2 / Ko) \<noteq> 0"
    using rubisco_denominator_pos [OF assms(1,2,4,5)] by simp
  then show ?thesis
    using assms by (simp add: rubisco_rp_def py_truediv_def add.assoc)
qed

text \<open>
  Claim C1. For fixed strictly positive \<open>O2, Rpmax, Ks, Kc, Ko\<close>, \<open>rubisco_rp\<close>
  returns \<open>Rpmax * (O2/Ks) / ((CO2/Kc) + 1 + O2/Ko)\<close> and is strictly decreasing in
  \<open>CO2\<close> over \<open>CO2 \<ge> 0\<close>: a larger concentration \<open>c2 > c1 \<ge> 0\<close> gives a strictly
  smaller value. At \<open>CO2 = 0\<close> the denominator is \<open>1 + O2/Ko\<close> and the value
  \<open>Rpmax * (O2/Ks) / (1 + O2/Ko)\<close> is strictly positive.
\<close>

theorem rubisco_rp_decreasing_in_CO2:
  assumes pos: "0 < O2" "0 < Rpmax" "0 < Ks" "0 < Kc" "0 < Ko"
    and c: "0 \<le> c1" "c1 < c2"
  shows "(\<exists>v1 v2. rubisco_rp c1 O2 Rpmax Ks Kc Ko = Inr v1
            \<and> rubisco_rp c2 O2 Rpmax Ks Kc Ko = Inr v2 \<and> v2 < v1)
     \<and> rubisco_rp c1 O2 Rpmax Ks Kc Ko = Inr (Rpmax * (O2 / Ks) / (c1 / Kc + 1 + O2 / Ko))
     \<and> rubisco_rp 0 O2 Rpmax Ks Kc Ko = Inr (Rpmax * (O2 / Ks) / (1 + O2 / Ko))
     \<and> 0 < Rpmax * (O2 / Ks) / (1 + O2 / Ko)"
proof -
  let ?A = "Rpmax * (O2 / Ks)"
  let ?d = "\<lambda>x. x / Kc + 1 + O2 / Ko"
  have A: "0 < ?A" using pos by simp
  have d1: "0 < ?d c1"
    using rubisco_denominator_pos [of c1 O2 Kc Ko] pos c by simp
  have d12: "?d c1 < ?d c2"
    using c pos by (simp add: divide_strict_right_mono)
  have d2: "0 < ?d c2" using d1 d12 by linarith
  have less: "?A / ?d c2 < ?A / ?d c1"
    using d12 A mult_pos_pos [OF d2 d1] by (rule divide_strict_left_mono)
  have v1: "rubisco_rp c1 O2 Rpmax Ks Kc Ko = Inr (?A / ?d c1)"
    using rubisco_rp_value [of c1 O2 Ks Kc Ko Rpmax] pos c by simp
  have v2: "rubisco_rp c2 O2 Rpmax Ks Kc Ko = Inr (?A / ?d c2)"
    using rubisco_rp_value [of c2 O2 Ks Kc Ko Rpmax] pos c by simp
  have v0: "rubisco_rp 0 O2 Rpmax Ks Kc Ko = Inr (?A / (1 + O2 / Ko))"
    using rubisco_rp_value [of 0 O2 Ks Kc Ko Rpmax] pos by simp
  have p0: "0 < ?A / (1 + O2 / Ko)"
    using A rubisco_denominator_pos [of 0 O2 Kc Ko] pos by simp
  show ?thesis using v1 v2 v0 p0 less by simp
qed

theorem rubisco_rp_decreasing_in_CO2_witness:
  "(\<exists>v1 v2. rubisco_rp 0 210 20 2.5 40 25 = Inr v1
            \<and> rubisco_rp 400 210 20 2.5 40 25 = Inr v2 \<and> v2 < v1)
   \<and> rubisco_rp 0 210 20 2.5 40 25 = Inr (8400 / 47)
   \<and> rubisco_rp 400 210 20 2.5 40 25 = Inr (8400 / 97)"
proof -
  have "\<exists>v1 v2. rubisco_rp 0 210 20 2.5 40 25 = Inr v1
            \<and> rubisco_rp 400 210 20 2.5 40 25 = Inr v2 \<and> v2 < v1"
    by (rule conjunct1 [OF rubisco_rp_decreasing_in_CO2]) simp_all
  moreover have "rubisco_rp 0 210 20 2.5 40 25 = Inr (8400 / 47)"
    by (simp add: rubisco_rp_def py_truediv_def)
  moreover have "rubisco_rp 400 210 20 2.5 40 25 = Inr (8400 / 97)"
    by (simp add: rubisco_rp_def py_truediv_def)
  ultimately show ?thesis by blast
qed

text \<open>
  Claim C10. For fixed \<open>CO2 \<ge> 0\<close> and strictly positive \<open>Rpmax, Ks, Kc, Ko\<close>,
  \<open>rubisco_rp\<close> is strictly increasing in \<open>O2\<close> on \<open>O2 \<ge> 0\<close>: a larger
  concentration \<open>o2 > o1 \<ge> 0\<close> gives a strictly larger value. At \<open>O2 = 0\<close> it
  returns exactly zero, not an error.
\<close>

theorem rubisco_rp_increasing_in_O2:
  assumes pos: "0 \<le> CO2" "0 < Rpmax" "0 < Ks" "0 < Kc" "0 < Ko"
    and o: "0 \<le> o1" "o1 < o2"
  shows "(\<exists>v1 v2. rubisco_rp CO2 o1 Rpmax Ks Kc Ko = Inr v1
            \<and> rubisco_rp CO2 o2 Rpmax Ks Kc Ko = Inr v2 \<and> v1 < v2)
     \<and> rubisco_rp CO2 0 Rpmax Ks Kc Ko = Inr 0"
proof -
  let ?a = "CO2 / Kc + 1"
  let ?f = "\<lambda>x. Rpmax * (x / Ks) / (?a + x / Ko)"
  have a: "0 < ?a" using pos by (simp add: add_nonneg_pos)
  have d1: "0 < ?a + o1 / Ko" using a o pos by (simp add: add_pos_nonneg)
  have d2: "0 < ?a + o2 / Ko" using a o pos by (simp add: add_pos_nonneg)
  have "o1 * ?a < o2 * ?a" using a o by simp
  then have "o1 * (?a + o2 / Ko) < o2 * (?a + o1 / Ko)"
    by (simp add: algebra_simps)
  then have "o1 / (?a + o1 / Ko) < o2 / (?a + o2 / Ko)"
    using d1 d2 by (simp add: divide_less_eq pos_less_divide_eq mult.commute)
  moreover have "0 < Rpmax / Ks" using pos by simp
  ultimately have "Rpmax / Ks * (o1 / (?a + o1 / Ko)) < Rpmax / Ks * (o2 / (?a + o2 / Ko))"
    by (simp only: mult_strict_left_mono)
  then have less: "?f o1 < ?f o2" by simp
  have v1: "rubisco_rp CO2 o1 Rpmax Ks Kc Ko = Inr (?f o1)"
    using rubisco_rp_value [of CO2 o1 Ks Kc Ko Rpmax] pos o by simp
  have v2: "rubisco_rp CO2 o2 Rpmax Ks Kc Ko = Inr (?f o2)"
    using rubisco_rp_value [of CO2 o2 Ks Kc Ko Rpmax] pos o by simp
  have v0: "rubisco_rp CO2 0 Rpmax Ks Kc Ko = Inr 0"
    using rubisco_rp_value [of CO2 0 Ks Kc Ko Rpmax] pos by simp
  show ?thesis using v1 v2 v0 less by simp
qed

theorem rubisco_rp_increasing_in_O2_witness:
  "(\<exists>v1 v2. rubisco_rp 400 50 20 2.5 40 25 = Inr v1
            \<and> rubisco_rp 400 210 20 2.5 40 25 = Inr v2 \<and> v1 < v2)
   \<and> rubisco_rp 400 50 20 2.5 40 25 = Inr (400 / 13)
   \<and> rubisco_rp 400 0 20 2.5 40 25 = Inr 0"
proof -
  have "\<exists>v1 v2. rubisco_rp 400 50 20 2.5 40 25 = Inr v1
            \<and> rubisco_rp 400 210 20 2.5 40 25 = Inr v2 \<and> v1 < v2"
    by (rule conjunct1 [OF rubisco_rp_increasing_in_O2]) simp_all
  moreover have "rubisco_rp 400 50 20 2.5 40 25 = Inr (400 / 13)"
    by (simp add: rubisco_rp_def py_truediv_def)
  moreover have "rubisco_rp 400 0 20 2.5 40 25 = Inr 0"
    by (simp add: rubisco_rp_def py_truediv_def)
  ultimately show ?thesis by blast
qed

section \<open>Division by zero\<close>

text \<open>On Python scalars the second model of each evaluator is the first one.\<close>

lemma nitrogen_respiration_coefficient_operands_scalar:
  "nitrogen_respiration_coefficient_operands (Scalar Ni) (Scalar r_ref) (Scalar N_ref)
     = map_sum id Scalar (nitrogen_respiration_coefficient Ni r_ref N_ref)"
  by (simp add: nitrogen_respiration_coefficient_operands_def
      nitrogen_respiration_coefficient_def py_truediv_def)

lemma rubisco_rp_operands_scalar:
  "rubisco_rp_operands (Scalar CO2) (Scalar O2) (Scalar Rpmax) (Scalar Ks) (Scalar Kc) (Scalar Ko)
     = map_sum id Scalar (rubisco_rp CO2 O2 Rpmax Ks Kc Ko)"
  by (simp add: rubisco_rp_operands_def rubisco_rp_def py_truediv_def)

lemma f64_div_zero_not_finite: "\<not> is_finite (f64_div x (Finite 0))"
  by (cases x) simp_all

lemma f64_mul_not_finite: "\<not> is_finite y \<Longrightarrow> \<not> is_finite (f64_mul x y)"
  by (cases x; cases y) simp_all

lemma f64_div_not_finite: "\<not> is_finite x \<Longrightarrow> \<not> is_finite (f64_div x y)"
  by (cases x; cases y) simp_all

lemma f64_add_not_finite_left: "\<not> is_finite x \<Longrightarrow> \<not> is_finite (f64_add x y)"
  by (cases x; cases y) simp_all

lemma f64_add_not_finite_right: "\<not> is_finite y \<Longrightarrow> \<not> is_finite (f64_add x y)"
  by (cases x; cases y) simp_all

lemma f64_div_finite_by_not_finite:
  "\<not> is_finite y \<Longrightarrow> f64_div (Finite a) y = Finite 0 \<or> f64_div (Finite a) y = NaN"
  by (cases y) simp_all

text \<open>
  Claim C8, as stated: with a zero divisor constant the fault reaches the caller as a
  non-finite value or as a raised arithmetic error. It does not hold for \<open>Kc = 0\<close> as
  \<open>make_plot\<close> calls \<open>rubisco_rp\<close>, with an array for \<open>CO2\<close>: the quotient
  \<open>CO2 / Kc\<close> is infinite, nothing is raised, and dividing by the infinite denominator
  gives the finite value 0.
\<close>

theorem rubisco_rp_zero_Kc_counterexample:
  "rubisco_rp_operands (Element (Finite 400)) (Scalar 210) (Scalar 20) (Scalar 2.5) (Scalar 0)
     (Scalar 25) = Inr (Element (Finite 0))"
  by (simp add: rubisco_rp_operands_def py_truediv_def)

text \<open>
  Claim C8, amended. Neither function guards a divisor, and neither catches or replaces
  an error. On Python scalars a zero \<open>N_ref\<close>, and a zero \<open>Ks\<close>, \<open>Kc\<close> or \<open>Ko\<close>,
  end in the ZeroDivisionError of the division concerned, which reaches the caller as the
  operator raised it. On numpy operands nothing is raised: a zero \<open>N_ref\<close> gives a
  non-finite value and a zero \<open>Ks\<close> gives a non-finite value, whereas a zero \<open>Kc\<close>
  or \<open>Ko\<close> (with \<open>Ks\<close> not zero and finite concentrations) makes the denominator
  infinite or NaN and the result 0 or NaN. With an array for \<open>CO2\<close> only, a zero
  \<open>Ks\<close> or \<open>Ko\<close> raises ZeroDivisionError and a zero \<open>Kc\<close> gives 0 or NaN.
\<close>

theorem division_by_zero_propagates:
  "nitrogen_respiration_coefficient Ni r_ref 0 = Inl ZeroDivisionError
   \<and> (Ks = 0 \<or> Kc = 0 \<or> Ko = 0 \<longrightarrow>
        rubisco_rp CO2 O2 Rpmax Ks Kc Ko = Inl ZeroDivisionError)
   \<and> (\<exists>v. nitrogen_respiration_coefficient_operands (Element ni) (Scalar r_ref) (Scalar 0)
             = Inr (Element v) \<and> \<not> is_finite v)
   \<and> (\<exists>v. rubisco_rp_operands (Element co2) (Element o2) (Scalar Rpmax) (Scalar 0) (Scalar Kc)
             (Scalar Ko) = Inr (Element v) \<and> \<not> is_finite v)
   \<and> ((Kc = 0 \<or> Ko = 0) \<and> Ks \<noteq> 0 \<longrightarrow>
        (\<exists>v. rubisco_rp_operands (Element (Finite c)) (Element (Finite ox)) (Scalar Rpmax)
                (Scalar Ks) (Scalar Kc) (Scalar Ko) = Inr (Element v)
              \<and> (v = Finite 0 \<or> v = NaN)))
   \<and> (Ks = 0 \<or> Ko = 0 \<longrightarrow>
        rubisco_rp_operands (Element co2) (Scalar O2) (Scalar Rpmax) (Scalar Ks) (Scalar Kc)
          (Scalar Ko) = Inl ZeroDivisionError)
   \<and> (Kc = 0 \<and> Ks \<noteq> 0 \<and> Ko \<noteq> 0 \<longrightarrow>
        (\<exists>v. rubisco_rp_operands (Element (Finite c)) (Scalar O2) (Scalar Rpmax)
                (Scalar Ks) (Scalar Kc) (Scalar Ko) = Inr (Element v)
              \<and> (v = Finite 0 \<or> v = NaN)))"
proof (intro conjI impI)
  show "nitrogen_respiration_coefficient Ni r_ref 0 = Inl ZeroDivisionError"
    by (simp add: nitrogen_respiration_coefficient_def py_truediv_def)
next
  assume "Ks = 0 \<or> Kc = 0 \<or> Ko = 0"
  then show "rubisco_rp CO2 O2 Rpmax Ks Kc Ko = Inl ZeroDivisionError"
    by (auto simp add: rubisco_rp_def py_truediv_def)
next
  show "\<exists>v. nitrogen_respiration_coefficient_operands (Element ni) (Scalar r_ref) (Scalar 0)
             = Inr (Element v) \<and> \<not> is_finite v"
    by (simp add: nitrogen_respiration_coefficient_operands_def
        f64_mul_not_finite f64_div_zero_not_finite)
next
  show "\<exists>v. rubisco_rp_operands (Element co2) (Element o2) (Scalar Rpmax) (Scalar 0) (Scalar Kc)
             (Scalar Ko) = Inr (Element v) \<and> \<not> is_finite v"
    by (simp add: rubisco_rp_operands_def
        f64_div_not_finite f64_mul_not_finite f64_div_zero_not_finite)
next
  assume h: "(Kc = 0 \<or> Ko = 0) \<and> Ks \<noteq> 0"
  let ?den = "f64_add (f64_div (Finite c) (Finite Kc))
                (f64_add (Finite 1) (f64_div (Finite ox) (Finite Ko)))"
  have "\<not> is_finite ?den"
  proof (cases "Kc = 0")
    case True
    then show ?thesis
      by (simp add: f64_add_not_finite_left f64_div_zero_not_finite)
  next
    case False
    with h have "Ko = 0" by simp
    then show ?thesis
      by (simp add: f64_add_not_finite_right f64_div_zero_not_finite)
  qed
  then have "f64_div (Finite (Rpmax * (ox / Ks))) ?den = Finite 0
             \<or> f64_div (Finite (Rpmax * (ox / Ks))) ?den = NaN"
    by (rule f64_div_finite_by_not_finite)
  with h show "\<exists>v. rubisco_rp_operands (Element (Finite c)) (Element (Finite ox)) (Scalar Rpmax)
                (Scalar Ks) (Scalar Kc) (Scalar Ko) = Inr (Element v)
              \<and> (v = Finite 0 \<or> v = NaN)"
    by (simp add: rubisco_rp_operands_def)
next
  assume "Ks = 0 \<or> Ko = 0"
  then show "rubisco_rp_operands (Element co2) (Scalar O2) (Scalar Rpmax) (Scalar Ks) (Scalar Kc)
          (Scalar Ko) = Inl ZeroDivisionError"
    by (auto simp add: rubisco_rp_operands_def py_truediv_def)
next
  assume h: "Kc = 0 \<and> Ks \<noteq> 0 \<and> Ko \<noteq> 0"
  let ?den = "f64_add (f64_div (Finite c) (Finite Kc)) (Finite (1 + O2 / Ko))"
  have "\<not> is_finite ?den"
    using h by (simp add: f64_add_not_finite_left f64_div_zero_not_finite)
  then have "f64_div (Finite (Rpmax * (O2 / Ks))) ?den = Finite 0
             \<or> f64_div (Finite (Rpmax * (O2 / Ks))) ?den = NaN"
    by (rule f64_div_finite_by_not_finite)
  with h show "\<exists>v. rubisco_rp_operands (Element (Finite c)) (Scalar O2) (Scalar Rpmax)
                (Scalar Ks) (Scalar Kc) (Scalar Ko) = Inr (Element v)
              \<and> (v = Finite 0 \<or> v = NaN)"
    by (simp add: rubisco_rp_operands_def py_truediv_def)
qed

theorem division_by_zero_propagates_witness:
  "nitrogen_respiration_coefficient 3 0.015 0 = Inl ZeroDivisionError
   \<and> rubisco_rp 400 210 20 0 40 25 = Inl ZeroDivisionError
   \<and> rubisco_rp 400 210 20 2.5 0 25 = Inl ZeroDivisionError
   \<and> rubisco_rp 400 210 20 2.5 40 0 = Inl ZeroDivisionError
   \<and> nitrogen_respiration_coefficient_operands (Element (Finite 3)) (Scalar 0.015) (Scalar 0)
       = Inr (Element PosInf)
   \<and> rubisco_rp_operands (Element (Finite 400)) (Element (Finite 210)) (Scalar 20) (Scalar 0)
        (Scalar 40) (Scalar 25) = Inr (Element PosInf)
   \<and> rubisco_rp_operands (Element (Finite 400)) (Element (Finite 210)) (Scalar 20) (Scalar 2.5)
        (Scalar 40) (Scalar 0) = Inr (Element (Finite 0))
   \<and> rubisco_rp_operands (Element (Finite 0)) (Element (Finite 210)) (Scalar 20) (Scalar 2.5)
        (Scalar 0) (Scalar 25) = Inr (Element NaN)
   \<and> rubisco_rp_operands (Element (Finite 400)) (Scalar 210) (Scalar 20) (Scalar 0) (Scalar 40)
        (Scalar 25) = Inl ZeroDivisionError
   \<and> rubisco_rp_operands (Element (Finite 400)) (Scalar 210) (Scalar 20) (Scalar 2.5) (Scalar 40)
        (Scalar 0) = Inl ZeroDivisionError"
proof -
  note t1 = division_by_zero_propagates
    [of 3 "0.015" 0 40 25 400 210 20 "Finite 3" "Finite 400" "Finite 210" 400 210]
  note t2 = division_by_zero_propagates
    [of 3 "0.015" "2.5" 0 25 400 210 20 "Finite 3" "Finite 400" "Finite 210" 400 210]
  note t3 = division_by_zero_propagates
    [of 3 "0.015" "2.5" 40 0 400 210 20 "Finite 3" "Finite 400" "Finite 210" 400 210]
  have s: "nitrogen_respiration_coefficient 3 0.015 0 = Inl ZeroDivisionError
     \<and> rubisco_rp 400 210 20 0 40 25 = Inl ZeroDivisionError
     \<and> rubisco_rp 400 210 20 2.5 0 25 = Inl ZeroDivisionError
     \<and> rubisco_rp 400 210 20 2.5 40 0 = Inl ZeroDivisionError
     \<and> rubisco_rp_operands (Element (Finite 400)) (Scalar 210) (Scalar 20) (Scalar 0) (Scalar 40)
          (Scalar 25) = Inl ZeroDivisionError
     \<and> rubisco_rp_operands (Element (Finite 400)) (Scalar 210) (Scalar 20) (Scalar 2.5) (Scalar 40)
          (Scalar 0) = Inl ZeroDivisionError"
    using t1 t2 t3 by simp
  have n: "nitrogen_respiration_coefficient_operands (Element (Finite 3)) (Scalar 0.015) (Scalar 0)
       = Inr (Element PosInf)"
    by (simp add: nitrogen_respiration_coefficient_operands_def)
  have r1: "rubisco_rp_operands (Element (Finite 400)) (Element (Finite 210)) (Scalar 20) (Scalar 0)
        (Scalar 40) (Scalar 25) = Inr (Element PosInf)"
    by (simp add: rubisco_rp_operands_def)
  have r2: "rubisco_rp_operands (Element (Finite 400)) (Element (Finite 210)) (Scalar 20)
        (Scalar 2.5) (Scalar 40) (Scalar 0) = Inr (Element (Finite 0))"
    by (simp add: rubisco_rp_operands_def)
  have r3: "rubisco_rp_operands (Element (Finite 0)) (Element (Finite 210)) (Scalar 20)
        (Scalar 2.5) (Scalar 0) (Scalar 25) = Inr (Element NaN)"
    by (simp add: rubisco_rp_operands_def)
  show ?thesis using s n r1 r2 r3 by blast
qed

section \<open>Temperature-scaled maintenance respiration\<close>







text \<open>
  The two places where the power is not a real number: a zero \<open>Q10\<close> below the
  reference temperature raises, and a negative \<open>Q10\<close> with a fractional exponent gives a
  complex number.
\<close>

lemma temperature_respiration_zero_base:
  "temperature_respiration 15 5 0 25 = Inl ZeroDivisionError"
  by (simp add: temperature_respiration_def py_pow_def)

lemma temperature_respiration_negative_base:
  "\<exists>z. temperature_respiration 30 5 (- 4) 25 = Inr (PyComplex z)"
  by (simp add: temperature_respiration_def py_pow_def)




end
